theory Spec2Isabelle
  imports Complex_Main "HOL-Library.AList" "HOL-Library.Sublist"
begin

section \<open>Python values of the calibration helpers\<close>

text \<open>
  The exceptions the modelled functions can raise. \<open>Exception\<close> is the generic
  exception class that \<^verbatim>\<open>calibration_util.py\<close> raises with a message; the others are
  raised by the interpreter (an index out of range, a missing dictionary key, a failed
  \<^verbatim>\<open>assert\<close>, a missing file) or by the numeric library (\<open>ValueError\<close>).
\<close>

datatype error =
    IndexError
  | KeyError
  | ValueError
  | AssertionError
  | FileNotFoundError
  | Exception string

text \<open>
  A Python dictionary keeps its keys in insertion order and holds each key once. It is an
  association list whose keys are distinct; \<open>d[k]\<close> raises \<open>KeyError\<close> on a missing key,
  \<open>d[k] = v\<close> overwrites in place or appends at the end.
\<close>

type_synonym ('k, 'v) dict = "('k \<times> 'v) list"

definition is_dict :: "('k, 'v) dict \<Rightarrow> bool" where
  "is_dict d = distinct (map fst d)"

definition dict_keys :: "('k, 'v) dict \<Rightarrow> 'k list" where
  "dict_keys d = map fst d"

definition dict_values :: "('k, 'v) dict \<Rightarrow> 'v list" where
  "dict_values d = map snd d"

definition dict_items :: "('k, 'v) dict \<Rightarrow> ('k \<times> 'v) list" where
  "dict_items d = d"

definition getitem :: "('k, 'v) dict \<Rightarrow> 'k \<Rightarrow> error + 'v" where
  "getitem d k = (case map_of d k of None \<Rightarrow> Inl KeyError | Some v \<Rightarrow> Inr v)"

definition setitem :: "('k, 'v) dict \<Rightarrow> 'k \<Rightarrow> 'v \<Rightarrow> ('k, 'v) dict" where
  "setitem d k v = AList.update k v d"

text \<open>
  Equality of dictionaries in Python does not look at the order of the keys: the two
  have the same number of entries and every key of the first is in the second with an
  equal value. \<open>veq\<close> compares the values.
\<close>

definition dict_eq :: "('v \<Rightarrow> 'v \<Rightarrow> bool) \<Rightarrow> ('k, 'v) dict \<Rightarrow> ('k, 'v) dict \<Rightarrow> bool" where
  "dict_eq veq a b =
     (length a = length b \<and>
      list_all (\<lambda>(k, v). case map_of b k of None \<Rightarrow> False | Some w \<Rightarrow> veq v w) a)"

section \<open>Transposition of a dictionary of dictionaries\<close>

text \<open>
  \<^verbatim>\<open>
  def __revert_dict_of_dict(dict_to_return):
      return {y: {x: dict_to_return[x][y] for x in dict_to_return}
              for y in list(dict_to_return.values())[0]}
  \<close>
  The inner comprehension runs over the keys \<open>x\<close> of the table for a fixed \<open>y\<close>, the
  outer one over the keys \<open>y\<close> of the first value of the table. Each comprehension
  inserts into the dictionary it is building; the first failing lookup aborts the whole
  expression.
\<close>

fun inner_comprehension ::
  "('x, ('y, 'v) dict) dict \<Rightarrow> 'y \<Rightarrow> 'x list \<Rightarrow> ('x, 'v) dict \<Rightarrow> error + ('x, 'v) dict" where
  "inner_comprehension dict_to_return y [] acc = Inr acc"
| "inner_comprehension dict_to_return y (x # xs) acc =
     (case getitem dict_to_return x of
        Inl e \<Rightarrow> Inl e
      | Inr row \<Rightarrow>
          (case getitem row y of
             Inl e \<Rightarrow> Inl e
           | Inr v \<Rightarrow> inner_comprehension dict_to_return y xs (setitem acc x v)))"

fun outer_comprehension ::
  "('x, ('y, 'v) dict) dict \<Rightarrow> 'y list \<Rightarrow> ('y, ('x, 'v) dict) dict
     \<Rightarrow> error + ('y, ('x, 'v) dict) dict" where
  "outer_comprehension dict_to_return [] acc = Inr acc"
| "outer_comprehension dict_to_return (y # ys) acc =
     (case inner_comprehension dict_to_return y (dict_keys dict_to_return) [] of
        Inl e \<Rightarrow> Inl e
      | Inr col \<Rightarrow> outer_comprehension dict_to_return ys (setitem acc y col))"

definition revert_dict_of_dict ::
  "('x, ('y, 'v) dict) dict \<Rightarrow> error + ('y, ('x, 'v) dict) dict" where
  "revert_dict_of_dict dict_to_return =
     (case dict_values dict_to_return of
        [] \<Rightarrow> Inl IndexError
      | first # _ \<Rightarrow> outer_comprehension dict_to_return (dict_keys first) [])"

text \<open>
  A time of day, \<^verbatim>\<open>datetime.time(hour, minute)\<close>: the key of a Time-Keyed Table.
\<close>

datatype time = Time (hour: nat) (minute: nat)

text \<open>
  \<open>table[x][y]\<close>: two lookups, each of which can raise \<open>KeyError\<close>.
\<close>

definition cell :: "('x, ('y, 'v) dict) dict \<Rightarrow> 'x \<Rightarrow> 'y \<Rightarrow> error + 'v" where
  "cell table x y = (case getitem table x of Inl e \<Rightarrow> Inl e | Inr row \<Rightarrow> getitem row y)"

text \<open>
  The entries of a table, one triple per stored sample, in the order of the table.
\<close>

definition entries :: "('x, ('y, 'v) dict) dict \<Rightarrow> ('x \<times> 'y \<times> 'v) list" where
  "entries table = concat (map (\<lambda>(x, row). map (\<lambda>(y, v). (x, y, v)) row) table)"

text \<open>
  A well-formed table: it has at least one outer key, it and its rows are dictionaries,
  and every row has the key set of the first row.
\<close>

definition well_formed :: "('x, ('y, 'v) dict) dict \<Rightarrow> bool" where
  "well_formed table =
     (table \<noteq> [] \<and> is_dict table \<and>
      (\<forall>row \<in> set (dict_values table).
         is_dict row \<and> set (dict_keys row) = set (dict_keys (hd (dict_values table)))))"

text \<open>
  The transposition in closed form, for comparison with \<open>revert_dict_of_dict\<close>: one
  entry per inner key \<open>y\<close> of \<open>ys\<close>, holding for every outer key \<open>x\<close> the value
  \<open>table[x][y]\<close>. It is only used where every row has the key \<open>y\<close>.
\<close>

definition transposed :: "('x, ('y, 'v) dict) dict \<Rightarrow> 'y list \<Rightarrow> ('y, ('x, 'v) dict) dict" where
  "transposed table ys =
     map (\<lambda>y. (y, map (\<lambda>(x, row). (x, the (map_of row y))) table)) ys"

text \<open>
  Equality of two tables, as \<open>==\<close> computes it on dictionaries of dictionaries.
\<close>

definition table_eq :: "('x, ('y, 'v) dict) dict \<Rightarrow> ('x, ('y, 'v) dict) dict \<Rightarrow> bool" where
  "table_eq = dict_eq (dict_eq (=))"

section \<open>Flattening real and simulated flow\<close>

text \<open>
  \<^verbatim>\<open>
  for time in time_list:
      real_flow_dict = real_flow_per_time[time]
      simulated_flow_dict = simulated_flow_per_time[time]
      for detector_external_id, real_flow_value in real_flow_dict.items():
          all_real_flow_list.append(real_flow_value)
          all_simulated_flow_list.append(simulated_flow_dict[detector_external_id])
  \<close>
  The inner loop of \<open>convert_flow_per_time_to_list\<close> without \<open>city_common_id\<close> is
  \<open>append_flows\<close>, the loop over the times is \<open>all_flows_loop\<close>; both thread the two
  lists. With \<open>city_common_id\<close> four lists are threaded and the detector goes to the city
  lists when \<open>city_common_id in detector_external_id\<close> (a substring test), to the
  PeMS lists otherwise. The flows are floats, which the function only moves around; they
  are modelled as reals. The final \<open>np.array(...).reshape(-1, 1)\<close> turns each list into a
  column with the same elements in the same order and is left out.
\<close>

fun append_flows ::
  "(string, real) dict \<Rightarrow> (string \<times> real) list \<Rightarrow> real list \<times> real list
     \<Rightarrow> error + real list \<times> real list" where
  "append_flows simulated_flow_dict [] (all_real_flow_list, all_simulated_flow_list) =
     Inr (all_real_flow_list, all_simulated_flow_list)"
| "append_flows simulated_flow_dict ((detector_external_id, real_flow_value) # rest)
       (all_real_flow_list, all_simulated_flow_list) =
     (case getitem simulated_flow_dict detector_external_id of
        Inl e \<Rightarrow> Inl e
      | Inr simulated_flow_value \<Rightarrow>
          append_flows simulated_flow_dict rest
            (all_real_flow_list @ [real_flow_value],
             all_simulated_flow_list @ [simulated_flow_value]))"

fun all_flows_loop ::
  "(time, (string, real) dict) dict \<Rightarrow> (time, (string, real) dict) dict \<Rightarrow> time list
     \<Rightarrow> real list \<times> real list \<Rightarrow> error + real list \<times> real list" where
  "all_flows_loop real_flow_per_time simulated_flow_per_time [] acc = Inr acc"
| "all_flows_loop real_flow_per_time simulated_flow_per_time (t # time_list) acc =
     (case getitem real_flow_per_time t of
        Inl e \<Rightarrow> Inl e
      | Inr real_flow_dict \<Rightarrow>
          (case getitem simulated_flow_per_time t of
             Inl e \<Rightarrow> Inl e
           | Inr simulated_flow_dict \<Rightarrow>
               (case append_flows simulated_flow_dict (dict_items real_flow_dict) acc of
                  Inl e \<Rightarrow> Inl e
                | Inr acc' \<Rightarrow>
                    all_flows_loop real_flow_per_time simulated_flow_per_time time_list acc')))"

type_synonym four_lists = "real list \<times> real list \<times> real list \<times> real list"

fun append_city_pems_flows ::
  "string \<Rightarrow> (string, real) dict \<Rightarrow> (string \<times> real) list \<Rightarrow> four_lists \<Rightarrow> error + four_lists" where
  "append_city_pems_flows city_common_id simulated_flow_dict [] acc = Inr acc"
| "append_city_pems_flows city_common_id simulated_flow_dict
       ((detector_external_id, real_flow_value) # rest)
       (city_real_flow_list, city_simulated_flow_list,
        pems_real_flow_list, pems_simulated_flow_list) =
     (if sublist city_common_id detector_external_id then
        (case getitem simulated_flow_dict detector_external_id of
           Inl e \<Rightarrow> Inl e
         | Inr simulated_flow_value \<Rightarrow>
             append_city_pems_flows city_common_id simulated_flow_dict rest
               (city_real_flow_list @ [real_flow_value],
                city_simulated_flow_list @ [simulated_flow_value],
                pems_real_flow_list, pems_simulated_flow_list))
      else
        (case getitem simulated_flow_dict detector_external_id of
           Inl e \<Rightarrow> Inl e
         | Inr simulated_flow_value \<Rightarrow>
             append_city_pems_flows city_common_id simulated_flow_dict rest
               (city_real_flow_list, city_simulated_flow_list,
                pems_real_flow_list @ [real_flow_value],
                pems_simulated_flow_list @ [simulated_flow_value])))"

fun city_pems_flows_loop ::
  "string \<Rightarrow> (time, (string, real) dict) dict \<Rightarrow> (time, (string, real) dict) dict \<Rightarrow> time list
     \<Rightarrow> four_lists \<Rightarrow> error + four_lists" where
  "city_pems_flows_loop city_common_id real_flow_per_time simulated_flow_per_time [] acc = Inr acc"
| "city_pems_flows_loop city_common_id real_flow_per_time simulated_flow_per_time
       (t # time_list) acc =
     (case getitem real_flow_per_time t of
        Inl e \<Rightarrow> Inl e
      | Inr real_flow_dict \<Rightarrow>
          (case getitem simulated_flow_per_time t of
             Inl e \<Rightarrow> Inl e
           | Inr simulated_flow_dict \<Rightarrow>
               (case append_city_pems_flows city_common_id simulated_flow_dict
                       (dict_items real_flow_dict) acc of
                  Inl e \<Rightarrow> Inl e
                | Inr acc' \<Rightarrow>
                    city_pems_flows_loop city_common_id real_flow_per_time
                      simulated_flow_per_time time_list acc')))"

datatype flow_lists =
    AllFlows "real list" "real list"
  | CityPemsFlows "real list" "real list" "real list" "real list"

text \<open>
  The first assertion of the function (every element of \<open>time_list\<close> is a
  \<open>datetime.time\<close>) holds by the type of \<open>time_list\<close>. The assertions on the lengths
  are kept: a failed one is \<open>AssertionError\<close>.
\<close>

definition convert_flow_per_time_to_list ::
  "(time, (string, real) dict) dict \<Rightarrow> (time, (string, real) dict) dict \<Rightarrow> time list
     \<Rightarrow> string option \<Rightarrow> error + flow_lists" where
  "convert_flow_per_time_to_list real_flow_per_time simulated_flow_per_time time_list
       city_common_id =
     (case city_common_id of
        None \<Rightarrow>
          (case all_flows_loop real_flow_per_time simulated_flow_per_time time_list ([], []) of
             Inl e \<Rightarrow> Inl e
           | Inr (all_real_flow_list, all_simulated_flow_list) \<Rightarrow>
               if length all_real_flow_list \<noteq> length all_simulated_flow_list
               then Inl AssertionError
               else Inr (AllFlows all_real_flow_list all_simulated_flow_list))
      | Some common_id \<Rightarrow>
          (case city_pems_flows_loop common_id real_flow_per_time simulated_flow_per_time
                  time_list ([], [], [], []) of
             Inl e \<Rightarrow> Inl e
           | Inr (city_real_flow_list, city_simulated_flow_list,
                  pems_real_flow_list, pems_simulated_flow_list) \<Rightarrow>
               if length city_real_flow_list \<noteq> length city_simulated_flow_list
               then Inl AssertionError
               else if length pems_real_flow_list \<noteq> length pems_simulated_flow_list
               then Inl AssertionError
               else Inr (CityPemsFlows city_real_flow_list city_simulated_flow_list
                           pems_real_flow_list pems_simulated_flow_list)))"

text \<open>
  The input condition of the flattening: every listed time is a key of both tables, and
  every entity of the real table's row is a key of the simulated table's row.
\<close>

definition tables_aligned ::
  "(time, (string, real) dict) dict \<Rightarrow> (time, (string, real) dict) dict \<Rightarrow> time list \<Rightarrow> bool" where
  "tables_aligned real_table simulated_table time_list =
     (\<forall>t \<in> set time_list.
        case map_of real_table t of
          None \<Rightarrow> False
        | Some real_row \<Rightarrow>
            (case map_of simulated_table t of
               None \<Rightarrow> False
             | Some simulated_row \<Rightarrow> set (dict_keys real_row) \<subseteq> set (dict_keys simulated_row)))"

text \<open>
  The two sequences as the specification words them: time-major over \<open>time_list\<close>, and
  within a time the entities of the real table's row in their order.
\<close>

definition real_sequence :: "(time, (string, real) dict) dict \<Rightarrow> time list \<Rightarrow> real list" where
  "real_sequence real_table time_list =
     concat (map (\<lambda>t. map snd (the (map_of real_table t))) time_list)"

definition simulated_sequence ::
  "(time, (string, real) dict) dict \<Rightarrow> (time, (string, real) dict) dict \<Rightarrow> time list \<Rightarrow> real list" where
  "simulated_sequence real_table simulated_table time_list =
     concat (map (\<lambda>t. map (\<lambda>entity. the (map_of (the (map_of simulated_table t)) entity))
                        (dict_keys (the (map_of real_table t)))) time_list)"

text \<open>
  The four accumulated lists are balanced when the city lists have one length and the
  PeMS lists have one length.
\<close>

definition balanced :: "four_lists \<Rightarrow> bool" where
  "balanced acc = (case acc of (cr, cs, pr, ps) \<Rightarrow> length cr = length cs \<and> length pr = length ps)"

section \<open>Linear regression between real and simulated data\<close>

text \<open>
  \<^verbatim>\<open>
  def get_linear_regression(real_data_list, simulated_data_list, enforce_intercept):
      lin_reg_object = LinearRegression(fit_intercept=(not enforce_intercept))
      lin_reg_object.fit(real_data_list, simulated_data_list)
      slope = lin_reg_object.coef_
      intercept = abs(lin_reg_object.intercept_)
      r_sq = lin_reg_object.score(real_data_list, simulated_data_list)
      yhat = np.dot(real_data_list, slope) + intercept
      max_val = real_data_list.max()
      if not enforce_intercept:
          intercept_float = intercept[0]
      else:
          intercept_float = intercept
      return slope[0][0], intercept_float, r_sq, max_val, yhat
  \<close>
  \<open>LinearRegression\<close> belongs to scikit-learn, not to the repository: the function is
  modelled over any regression utility \<open>lib\<close>, given by its \<open>fit\<close> (called with the
  value of \<open>fit_intercept\<close>) and its \<open>score\<close>, each of which may raise. The fitted
  object carries the attributes \<open>coef_\<close> and \<open>intercept_\<close>, here \<open>coef_fitted\<close> and
  \<open>intercept_fitted\<close>. The two inputs are columns of floats, modelled as lists of reals;
  what \<open>score\<close> returns is passed through and its type is left open.
\<close>

record lin_reg_object =
  coef_fitted :: real
  intercept_fitted :: real

record 's regression_utility =
  fit :: "bool \<Rightarrow> real list \<Rightarrow> real list \<Rightarrow> error + lin_reg_object"
  score :: "lin_reg_object \<Rightarrow> real list \<Rightarrow> real list \<Rightarrow> error + 's"

record 's regression_result =
  slope :: real
  intercept :: real
  r_sq :: 's
  max_val :: real
  yhat :: "real list"

text \<open>
  \<open>real_data_list.max()\<close>: the maximum of an empty array raises \<open>ValueError\<close>.
\<close>

definition array_max :: "real list \<Rightarrow> error + real" where
  "array_max xs = (case xs of [] \<Rightarrow> Inl ValueError | x # rest \<Rightarrow> Inr (fold max rest x))"

text \<open>
  With \<open>fit_intercept\<close> the attribute \<open>intercept_\<close> is an array with one element and
  the function returns its element 0, without it a scalar that is returned as it is:
  in both cases the number \<open>\<bar>intercept_\<bar>\<close>.
\<close>

definition get_linear_regression ::
  "'s regression_utility \<Rightarrow> real list \<Rightarrow> real list \<Rightarrow> bool \<Rightarrow> error + 's regression_result" where
  "get_linear_regression lib real_data_list simulated_data_list enforce_intercept =
     (case fit lib (\<not> enforce_intercept) real_data_list simulated_data_list of
        Inl e \<Rightarrow> Inl e
      | Inr lin_reg_object \<Rightarrow>
          let slope' = coef_fitted lin_reg_object;
              intercept' = \<bar>intercept_fitted lin_reg_object\<bar>
          in (case score lib lin_reg_object real_data_list simulated_data_list of
                Inl e \<Rightarrow> Inl e
              | Inr r_sq' \<Rightarrow>
                  let yhat' = map (\<lambda>x. x * slope' + intercept') real_data_list
                  in (case array_max real_data_list of
                        Inl e \<Rightarrow> Inl e
                      | Inr max_val' \<Rightarrow>
                          Inr \<lparr>slope = slope', intercept = intercept', r_sq = r_sq',
                               max_val = max_val', yhat = yhat'\<rparr>)))"

text \<open>
  Modelled from the spec: the Regression Utility, an external collaborator of which the
  specification gives the interface only (it "fits a line (with or without a forced zero
  intercept) to two equal-length numeric sequences and returns slope, intercept, and
  goodness-of-fit"). \<open>forces_zero_intercept\<close> is its contract for a fit without
  intercept.
\<close>

definition forces_zero_intercept :: "'s regression_utility \<Rightarrow> bool" where
  "forces_zero_intercept lib =
     (\<forall>xs ys obj. fit lib False xs ys = Inr obj \<longrightarrow> intercept_fitted obj = 0)"

text \<open>
  Modelled from the spec: one such Regression Utility, ordinary least squares of \<open>y\<close> on
  \<open>x\<close> over the reals, used to run \<open>get_linear_regression\<close> on concrete data. It follows
  scikit-learn where the specification is silent: sequences of different lengths and
  empty sequences are refused with \<open>ValueError\<close>, a single point is fitted (the
  least-squares solution of least norm: slope 0 when all \<open>x\<close> are equal), and the
  coefficient of determination of fewer than two points is not a number, which is
  \<open>None\<close> here.
\<close>

definition mean :: "real list \<Rightarrow> real" where
  "mean xs = sum_list xs / real (length xs)"

definition least_squares_coef :: "real list \<Rightarrow> real list \<Rightarrow> real" where
  "least_squares_coef xs ys =
     (let sxx = sum_list (map (\<lambda>x. x * x) xs);
          sxy = sum_list (map (\<lambda>(x, y). x * y) (zip xs ys))
      in if sxx = 0 then 0 else sxy / sxx)"

definition ols_fit :: "bool \<Rightarrow> real list \<Rightarrow> real list \<Rightarrow> error + lin_reg_object" where
  "ols_fit fit_intercept xs ys =
     (if length xs \<noteq> length ys \<or> xs = [] then Inl ValueError
      else if fit_intercept then
        let coef = least_squares_coef (map (\<lambda>x. x - mean xs) xs) (map (\<lambda>y. y - mean ys) ys)
        in Inr \<lparr>coef_fitted = coef, intercept_fitted = mean ys - coef * mean xs\<rparr>
      else Inr \<lparr>coef_fitted = least_squares_coef xs ys, intercept_fitted = 0\<rparr>)"

definition ols_score :: "lin_reg_object \<Rightarrow> real list \<Rightarrow> real list \<Rightarrow> error + real option" where
  "ols_score obj xs ys =
     (if length xs \<noteq> length ys \<or> xs = [] then Inl ValueError
      else if length xs < 2 then Inr None
      else
        let residual = sum_list (map (\<lambda>(x, y). (y - (x * coef_fitted obj + intercept_fitted obj))\<^sup>2) (zip xs ys));
            total = sum_list (map (\<lambda>y. (y - mean ys)\<^sup>2) ys)
        in Inr (Some (if total = 0 then (if residual = 0 then 1 else 0)
                      else 1 - residual / total)))"

definition ols_utility :: "real option regression_utility" where
  "ols_utility = \<lparr>fit = ols_fit, score = ols_score\<rparr>"

section \<open>The external demand profile and its file\<close>

text \<open>
  The record \<open>ExternalDemandData\<close> of \<^verbatim>\<open>calibration_util.py\<close>. The attributes that
  \<open>__init__\<close> sets to \<open>None\<close> are options.
\<close>

record ExternalDemandData =
  origin_centroid_id :: string
  origin_detector_id :: "string option"
  destination_centroid_id :: string
  destination_detector_id :: "string option"
  streetlight_afternoon_flow :: real
  streetlight_demand_per_timestep :: "(time, real) dict"
  from_detector_afternoon_flow :: "real option"
  to_detector_afternoon_flow :: "real option"
  from_demand_per_timestep :: "(time, real) dict"
  to_demand_per_timestep :: "(time, real) dict"

text \<open>
  What \<open>pickle.load\<close> can return: any Python object. Only the distinction between a
  list, an \<open>ExternalDemandData\<close> and anything else matters to the import.
\<close>

datatype py_value =
    PyNone
  | PyInt int
  | PyStr string
  | PyList "py_value list"
  | PyExternalDemandData ExternalDemandData

fun isinstance_list :: "py_value \<Rightarrow> bool" where
  "isinstance_list (PyList _) = True"
| "isinstance_list _ = False"

fun isinstance_ExternalDemandData :: "py_value \<Rightarrow> bool" where
  "isinstance_ExternalDemandData (PyExternalDemandData _) = True"
| "isinstance_ExternalDemandData _ = False"

fun list_items :: "py_value \<Rightarrow> py_value list" where
  "list_items (PyList xs) = xs"
| "list_items _ = []"

definition index0 :: "py_value list \<Rightarrow> error + py_value" where
  "index0 xs = (case xs of [] \<Rightarrow> Inl IndexError | x # _ \<Rightarrow> Inr x)"

text \<open>
  \<open>ExternalDemandProfile\<close> holds the list \<open>ext_demand_matrix\<close>. Its annotation is
  \<open>List[ExternalDemandData]\<close>, but the import stores whatever list passed the check, so
  the elements are Python values.
\<close>

record ExternalDemandProfile =
  ext_demand_matrix :: "py_value list"

text \<open>
  The part of the outside world the two methods touch: the files, each holding the value
  that was pickled into it, and the warnings issued so far. Directories, permissions and
  files that are not pickles are not modelled.
\<close>

record environment =
  files :: "string \<rightharpoonup> py_value"
  warnings :: "string list"

definition path_exists :: "environment \<Rightarrow> string \<Rightarrow> bool" where
  "path_exists env filepath = (files env filepath \<noteq> None)"

definition warn :: "string \<Rightarrow> environment \<Rightarrow> environment" where
  "warn message env = env\<lparr>warnings := warnings env @ [message]\<rparr>"

definition pickle_dump :: "py_value \<Rightarrow> string \<Rightarrow> environment \<Rightarrow> environment" where
  "pickle_dump obj filepath env = env\<lparr>files := (files env)(filepath \<mapsto> obj)\<rparr>"

text \<open>
  \<^verbatim>\<open>
  def export_to_file(self, filepath):
      if len(self.ext_demand_matrix) == 0:
          raise Exception('ExternalDemandProfile has no data. Export aborted.')
      if path.exists(filepath):
          warnings.warn('File already exists at filepath. Overwriting file.')
      with open(filepath, 'wb') as file:
          pickle.dump(self.ext_demand_matrix, file)
  \<close>
\<close>

definition export_to_file ::
  "ExternalDemandProfile \<Rightarrow> string \<Rightarrow> environment \<Rightarrow> (error + unit) \<times> environment" where
  "export_to_file self filepath env =
     (if length (ext_demand_matrix self) = 0 then
        (Inl (Exception ''ExternalDemandProfile has no data. Export aborted.''), env)
      else
        let env' = (if path_exists env filepath
                    then warn ''File already exists at filepath. Overwriting file.'' env
                    else env)
        in (Inr (), pickle_dump (PyList (ext_demand_matrix self)) filepath env'))"

text \<open>
  \<^verbatim>\<open>
  def __import_from_file(self, filepath):
      with open(filepath, 'rb') as file:
          imported_data = pickle.load(file)
      if (isinstance(imported_data, list)
              and isinstance(imported_data[0], ExternalDemandData)):
          self.ext_demand_matrix = imported_data
      else:
          raise Exception("File has incorrect data type. Import aborted.")
  \<close>
  \<open>and\<close> evaluates \<open>imported_data[0]\<close> only when \<open>imported_data\<close> is a list.
\<close>

definition import_from_file ::
  "ExternalDemandProfile \<Rightarrow> string \<Rightarrow> environment \<Rightarrow> error + ExternalDemandProfile" where
  "import_from_file self filepath env =
     (case files env filepath of
        None \<Rightarrow> Inl FileNotFoundError
      | Some imported_data \<Rightarrow>
          if isinstance_list imported_data then
            (case index0 (list_items imported_data) of
               Inl e \<Rightarrow> Inl e
             | Inr first \<Rightarrow>
                 if isinstance_ExternalDemandData first
                 then Inr (self\<lparr>ext_demand_matrix := list_items imported_data\<rparr>)
                 else Inl (Exception ''File has incorrect data type. Import aborted.''))
          else Inl (Exception ''File has incorrect data type. Import aborted.''))"

text \<open>
  \<^verbatim>\<open>
  def __init__(self, filepath=""):
      self.ext_demand_matrix = []
      if filepath != "":
          self.__import_from_file(filepath)
  \<close>
\<close>

definition init :: "string \<Rightarrow> environment \<Rightarrow> error + ExternalDemandProfile" where
  "init filepath env =
     (let self = \<lparr>ext_demand_matrix = []\<rparr>
      in if filepath \<noteq> '''' then import_from_file self filepath env else Inr self)"

text \<open>
  One record, for the examples below.
\<close>

definition sample_demand_data :: ExternalDemandData where
  "sample_demand_data =
     \<lparr>origin_centroid_id = ''ext_1'', origin_detector_id = None,
      destination_centroid_id = ''ext_2'', destination_detector_id = None,
      streetlight_afternoon_flow = 120,
      streetlight_demand_per_timestep = [(Time 14 0, 30)],
      from_detector_afternoon_flow = None, to_detector_afternoon_flow = None,
      from_demand_per_timestep = [], to_demand_per_timestep = []\<rparr>"

section \<open>Lemmas about the transposition\<close>

lemma update_fresh: "k \<notin> fst ` set al \<Longrightarrow> AList.update k v al = al @ [(k, v)]"
  by (induction al) auto

lemma getitem_Inr_iff: "getitem d k = Inr v \<longleftrightarrow> map_of d k = Some v"
  by (simp add: getitem_def split: option.splits)

lemma getitem_Inl_iff: "getitem d k = Inl e \<longleftrightarrow> e = KeyError \<and> map_of d k = None"
  by (auto simp: getitem_def split: option.splits)

lemma inner_comprehension_closed:
  assumes "distinct (map fst rows)" "set (map fst rows) \<inter> fst ` set acc = {}"
    and "set rows \<subseteq> set table" "is_dict table"
    and "\<forall>row \<in> set (map snd rows). y \<in> fst ` set row"
  shows "inner_comprehension table y (map fst rows) acc =
           Inr (acc @ map (\<lambda>(x, row). (x, the (map_of row y))) rows)"
  using assms
proof (induction rows arbitrary: acc)
  case Nil
  then show ?case by simp
next
  case (Cons p rows)
  obtain x row where p: "p = (x, row)" by (cases p)
  from Cons.prems p have look: "map_of table x = Some row"
    by (simp add: is_dict_def)
  from Cons.prems p obtain v where v: "map_of row y = Some v"
    by (cases "map_of row y") (auto simp: map_of_eq_None_iff)
  have fresh: "x \<notin> fst ` set acc" using Cons.prems p by auto
  have "inner_comprehension table y (map fst rows) (acc @ [(x, v)]) =
        Inr ((acc @ [(x, v)]) @ map (\<lambda>(x, row). (x, the (map_of row y))) rows)"
    apply (rule Cons.IH) using Cons.prems p by auto
  then show ?case using look v fresh
    by (simp add: p getitem_def setitem_def update_fresh)
qed

lemma outer_comprehension_closed:
  assumes "distinct ys" "set ys \<inter> fst ` set acc = {}" "is_dict table"
    and "\<forall>row \<in> set (dict_values table). set ys \<subseteq> set (dict_keys row)"
  shows "outer_comprehension table ys acc = Inr (acc @ transposed table ys)"
  using assms
proof (induction ys arbitrary: acc)
  case Nil
  then show ?case by (simp add: transposed_def)
next
  case (Cons y ys)
  have col: "inner_comprehension table y (dict_keys table) [] =
        Inr (map (\<lambda>(x, row). (x, the (map_of row y))) table)"
    using inner_comprehension_closed [of table "[]" table y] Cons.prems
    by (simp add: dict_keys_def is_dict_def dict_values_def)
  have fresh: "y \<notin> fst ` set acc" using Cons.prems by auto
  have "outer_comprehension table ys (acc @ [(y, map (\<lambda>(x, row). (x, the (map_of row y))) table)]) =
        Inr ((acc @ [(y, map (\<lambda>(x, row). (x, the (map_of row y))) table)]) @ transposed table ys)"
    apply (rule Cons.IH) using Cons.prems by auto
  then show ?case using col fresh
    by (simp add: setitem_def update_fresh transposed_def)
qed

lemma revert_dict_of_dict_closed:
  assumes "table = (x0, first) # rest" "is_dict table" "is_dict first"
    and "\<forall>row \<in> set (dict_values table). set (dict_keys first) \<subseteq> set (dict_keys row)"
  shows "revert_dict_of_dict table = Inr (transposed table (dict_keys first))"
  using outer_comprehension_closed [of "dict_keys first" "[]" table] assms
  by (simp add: revert_dict_of_dict_def dict_values_def is_dict_def dict_keys_def)

lemma map_of_transposed:
  "map_of (transposed table ys) y =
     (if y \<in> set ys then Some (map (\<lambda>(x, row). (x, the (map_of row y))) table) else None)"
  by (induction ys) (auto simp: transposed_def)

lemma map_of_column:
  "map_of (map (\<lambda>(x, row). (x, the (map_of row y))) table) x =
     map_option (\<lambda>row. the (map_of row y)) (map_of table x)"
  by (induction table) auto

lemma cell_transposed:
  assumes "is_dict table" "(x, row) \<in> set table" "is_dict row" "(y, v) \<in> set row" "y \<in> set ys"
  shows "cell (transposed table ys) y x = Inr v"
  using assms
  by (simp add: cell_def getitem_def map_of_transposed map_of_column is_dict_def)

lemma cell_table:
  assumes "is_dict table" "(x, row) \<in> set table" "is_dict row" "(y, v) \<in> set row"
  shows "cell table x y = Inr v"
  using assms by (simp add: cell_def getitem_def is_dict_def)

lemma keys_transposed: "dict_keys (transposed table ys) = ys"
  by (simp add: transposed_def dict_keys_def comp_def)

lemma keys_column: "map fst (map (\<lambda>(x, row). (x, f row)) table) = map fst table"
  by (induction table) auto

lemma values_transposed_keys:
  "col \<in> set (dict_values (transposed table ys)) \<Longrightarrow> dict_keys col = dict_keys table"
  by (auto simp: transposed_def dict_values_def dict_keys_def keys_column)

lemma set_entries:
  "set (entries table) = {(x, y, v). \<exists>row. (x, row) \<in> set table \<and> (y, v) \<in> set row}"
  by (auto simp: entries_def)

lemma set_entries_transposed:
  "set (entries (transposed table ys)) =
     {(y, x, v). y \<in> set ys \<and> (\<exists>row. (x, row) \<in> set table \<and> v = the (map_of row y))}"
  by (fastforce simp: set_entries transposed_def)

lemma length_entries_transposed:
  "length (entries (transposed table ys)) = length ys * length table"
  by (simp add: entries_def transposed_def length_concat comp_def case_prod_beta sum_list_triv)

lemma length_entries_uniform:
  assumes "\<forall>row \<in> set (dict_values table). length row = n"
  shows "length (entries table) = n * length table"
  using assms
  by (induction table) (auto simp: entries_def dict_values_def)

lemma same_keys_same_length:
  assumes "is_dict a" "distinct ys" "set (dict_keys a) = set ys"
  shows "length a = length ys"
proof -
  have "length a = card (set (dict_keys a))"
    using assms(1) distinct_card [of "map fst a"] by (simp add: is_dict_def dict_keys_def)
  also have "\<dots> = length ys"
    using assms(2,3) by (simp add: distinct_card)
  finally show ?thesis .
qed

lemma dict_entry_iff:
  "is_dict row \<Longrightarrow> (y, v) \<in> set row \<longleftrightarrow> y \<in> set (dict_keys row) \<and> v = the (map_of row y)"
  by (auto simp: is_dict_def dict_keys_def rev_image_eqI)

lemma well_formed_Cons:
  assumes "well_formed table"
  obtains x0 first rest where "table = (x0, first) # rest" "is_dict table" "is_dict first"
    "\<forall>row \<in> set (dict_values table). is_dict row \<and> set (dict_keys row) = set (dict_keys first)"
proof -
  from assms obtain p rest where t: "table = p # rest"
    by (cases table) (auto simp: well_formed_def)
  obtain x0 first where p: "p = (x0, first)" by (cases p)
  show ?thesis
    using assms that [of x0 first rest] by (simp add: t p well_formed_def dict_values_def)
qed

lemma dict_eq_row:
  assumes "is_dict row" "distinct ys" "set (dict_keys row) = set ys"
  shows "dict_eq (=) (map (\<lambda>y. (y, the (map_of row y))) ys) row"
proof -
  have "length row = length ys"
    using assms by (rule same_keys_same_length)
  moreover have "\<exists>v. map_of row y = Some v" if "y \<in> set ys" for y
  proof (cases "map_of row y")
    case None
    then show ?thesis using that assms(3) by (simp add: map_of_eq_None_iff dict_keys_def)
  qed simp
  ultimately show ?thesis
    by (fastforce simp: dict_eq_def list_all_iff)
qed

lemma transposed_twice:
  assumes "is_dict table"
  shows "transposed (transposed table ys) (dict_keys table) =
     map (\<lambda>(x, row). (x, map (\<lambda>y. (y, the (map_of row y))) ys)) table"
proof -
  have "map (\<lambda>(y, col). (y, the (map_of col x))) (transposed table ys) =
        map (\<lambda>y. (y, the (map_of row y))) ys" if "(x, row) \<in> set table" for x row
  proof -
    have "map_of table x = Some row"
      using that assms by (simp add: is_dict_def)
    then show ?thesis
      by (simp add: transposed_def comp_def map_of_column)
  qed
  then show ?thesis
    by (auto simp: transposed_def [of "transposed table ys"] dict_keys_def comp_def)
qed

lemma table_eq_transposed_twice:
  assumes "is_dict table" "distinct ys"
    and "\<forall>row \<in> set (dict_values table). is_dict row \<and> set (dict_keys row) = set ys"
  shows "table_eq (transposed (transposed table ys) (dict_keys table)) table"
proof -
  have "case map_of table x of None \<Rightarrow> False
        | Some w \<Rightarrow> dict_eq (=) (map (\<lambda>y. (y, the (map_of row y))) ys) w"
    if "(x, row) \<in> set table" for x row
  proof -
    have "map_of table x = Some row"
      using that assms(1) by (simp add: is_dict_def)
    moreover have "dict_eq (=) (map (\<lambda>y. (y, the (map_of row y))) ys) row"
      using that assms(2,3) by (intro dict_eq_row) (auto simp: dict_values_def)
    ultimately show ?thesis by simp
  qed
  then show ?thesis
    unfolding table_eq_def transposed_twice [OF assms(1)]
    by (auto simp: dict_eq_def [of "dict_eq (=)"] list_all_iff)
qed

lemma inner_comprehension_error:
  "inner_comprehension table y xs acc = Inl e \<Longrightarrow> e = KeyError"
  by (induction xs arbitrary: acc) (auto simp: getitem_Inl_iff split: sum.splits)

lemma outer_comprehension_error:
  "outer_comprehension table ys acc = Inl e \<Longrightarrow> e = KeyError"
  by (induction ys arbitrary: acc) (auto dest: inner_comprehension_error split: sum.splits)

lemma inner_comprehension_missing:
  assumes "x \<in> set xs" "map_of table x = Some row" "map_of row y = None"
  shows "inner_comprehension table y xs acc = Inl KeyError"
  using assms
proof (induction xs arbitrary: acc)
  case Nil
  then show ?case by simp
next
  case (Cons x' xs)
  show ?case
  proof (cases "x' = x")
    case True
    then show ?thesis using Cons.prems by (simp add: getitem_def)
  next
    case False
    with Cons.prems have "x \<in> set xs" by simp
    then have "inner_comprehension table y xs acc' = Inl KeyError" for acc'
      using Cons.IH Cons.prems by simp
    then show ?thesis
      by (auto simp: getitem_Inl_iff split: sum.splits)
  qed
qed

lemma outer_comprehension_missing:
  assumes "y \<in> set ys" "inner_comprehension table y (dict_keys table) [] = Inl KeyError"
  shows "outer_comprehension table ys acc = Inl KeyError"
  using assms
proof (induction ys arbitrary: acc)
  case Nil
  then show ?case by simp
next
  case (Cons y' ys)
  show ?case
  proof (cases "y' = y")
    case True
    then show ?thesis using Cons.prems by simp
  next
    case False
    with Cons.prems have "y \<in> set ys" by simp
    then have "outer_comprehension table ys acc' = Inl KeyError" for acc'
      using Cons.IH Cons.prems by simp
    then show ?thesis
      by (auto dest: inner_comprehension_error split: sum.splits)
  qed
qed

text \<open>
  On dictionaries \<open>dict_eq\<close> with equality of the values is equality of the finite
  maps: the order of the keys does not matter, everything else does.
\<close>

lemma length_dict: "is_dict a \<Longrightarrow> length a = card (dom (map_of a))"
  using distinct_card [of "map fst a"] by (simp add: is_dict_def dom_map_of_conv_image_fst)

lemma dict_eq_iff_map_of:
  assumes "is_dict a" "is_dict b"
  shows "dict_eq (=) a b \<longleftrightarrow> map_of a = map_of b"
proof
  assume eq: "dict_eq (=) a b"
  then have len: "length a = length b"
    and sub: "\<And>k v. (k, v) \<in> set a \<Longrightarrow> map_of b k = Some v"
    by (auto simp: dict_eq_def list_all_iff split: option.splits)
  have "dom (map_of a) \<subseteq> dom (map_of b)"
    using sub by (auto dest: map_of_SomeD)
  moreover have "card (dom (map_of a)) = card (dom (map_of b))"
    using len assms by (simp add: length_dict)
  ultimately have doms: "dom (map_of a) = dom (map_of b)"
    by (simp add: card_subset_eq finite_dom_map_of)
  show "map_of a = map_of b"
  proof
    fix k
    show "map_of a k = map_of b k"
    proof (cases "map_of a k")
      case None
      then show ?thesis using doms by (metis domIff)
    next
      case (Some v)
      then show ?thesis using sub [of k v] by (simp add: map_of_SomeD)
    qed
  qed
next
  assume eq: "map_of a = map_of b"
  then have "length a = length b"
    using assms by (simp add: length_dict)
  moreover have "map_of b k = Some v" if "(k, v) \<in> set a" for k v
    using that assms(1) eq by (simp add: is_dict_def flip: eq)
  ultimately show "dict_eq (=) a b"
    by (auto simp: dict_eq_def list_all_iff)
qed

section \<open>Lemmas about the flattening\<close>

lemma append_flows_closed:
  assumes "set (map fst its) \<subseteq> set (dict_keys sim)"
  shows "append_flows sim its (rl, sl) =
           Inr (rl @ map snd its, sl @ map (\<lambda>entity. the (map_of sim entity)) (map fst its))"
  using assms
proof (induction its arbitrary: rl sl)
  case Nil
  then show ?case by simp
next
  case (Cons p its)
  obtain entity v where p: "p = (entity, v)" by (cases p)
  from Cons.prems p obtain w where w: "map_of sim entity = Some w"
    by (cases "map_of sim entity") (auto simp: map_of_eq_None_iff dict_keys_def)
  from Cons.prems have "set (map fst its) \<subseteq> set (dict_keys sim)" by simp
  from Cons.IH [OF this] w show ?case
    by (simp add: p getitem_def)
qed

lemma all_flows_loop_closed:
  assumes "tables_aligned real_table simulated_table time_list"
  shows "all_flows_loop real_table simulated_table time_list (rl, sl) =
           Inr (rl @ real_sequence real_table time_list,
                sl @ simulated_sequence real_table simulated_table time_list)"
  using assms
proof (induction time_list arbitrary: rl sl)
  case Nil
  then show ?case by (simp add: real_sequence_def simulated_sequence_def)
next
  case (Cons t time_list)
  from Cons.prems obtain real_row simulated_row where
    r: "map_of real_table t = Some real_row" and s: "map_of simulated_table t = Some simulated_row"
    and sub: "set (dict_keys real_row) \<subseteq> set (dict_keys simulated_row)"
    by (auto simp: tables_aligned_def split: option.splits)
  from Cons.prems have "tables_aligned real_table simulated_table time_list"
    by (simp add: tables_aligned_def)
  note IH = Cons.IH [OF this]
  have "append_flows simulated_row (dict_items real_row) (rl, sl) =
          Inr (rl @ map snd real_row,
               sl @ map (\<lambda>entity. the (map_of simulated_row entity)) (dict_keys real_row))"
    using append_flows_closed [of real_row simulated_row rl sl] sub
    by (simp add: dict_items_def dict_keys_def)
  then show ?case
    using r s IH by (simp add: getitem_def real_sequence_def simulated_sequence_def)
qed

lemma append_flows_balanced:
  "append_flows sim its (rl, sl) = Inr (rl', sl') \<Longrightarrow> length rl = length sl
     \<Longrightarrow> length rl' = length sl'"
proof (induction its arbitrary: rl sl)
  case Nil
  then show ?case by simp
next
  case (Cons p its)
  obtain entity v where p: "p = (entity, v)" by (cases p)
  from Cons.prems(1) obtain w where
    "append_flows sim its (rl @ [v], sl @ [w]) = Inr (rl', sl')"
    by (auto simp: p split: sum.splits)
  then show ?case
    using Cons.IH [of "rl @ [v]" "sl @ [w]"] Cons.prems(2) by simp
qed

lemma all_flows_loop_balanced:
  "all_flows_loop real_table simulated_table time_list (rl, sl) = Inr (rl', sl')
     \<Longrightarrow> length rl = length sl \<Longrightarrow> length rl' = length sl'"
proof (induction time_list arbitrary: rl sl)
  case Nil
  then show ?case by simp
next
  case (Cons t time_list)
  from Cons.prems(1) obtain real_row simulated_row rl1 sl1 where
    step: "append_flows simulated_row (dict_items real_row) (rl, sl) = Inr (rl1, sl1)"
    and rest: "all_flows_loop real_table simulated_table time_list (rl1, sl1) = Inr (rl', sl')"
    by (auto split: sum.splits)
  from step Cons.prems(2) have "length rl1 = length sl1"
    by (rule append_flows_balanced)
  with rest show ?case by (rule Cons.IH)
qed

lemma append_city_pems_flows_balanced:
  "append_city_pems_flows cid sim its acc = Inr acc' \<Longrightarrow> balanced acc \<Longrightarrow> balanced acc'"
proof (induction cid sim its acc rule: append_city_pems_flows.induct)
  case (1 cid sim acc)
  then show ?case by simp
next
  case (2 cid sim entity v rest cr cs pr ps)
  show ?case
  proof (cases "sublist cid entity")
    case True
    with "2.prems"(1) obtain w where
      "append_city_pems_flows cid sim rest (cr @ [v], cs @ [w], pr, ps) = Inr acc'"
      and "getitem sim entity = Inr w"
      by (auto split: sum.splits)
    then show ?thesis
      using "2.IH"(1) [OF True] "2.prems"(2) by (simp add: balanced_def)
  next
    case False
    with "2.prems"(1) obtain w where
      "append_city_pems_flows cid sim rest (cr, cs, pr @ [v], ps @ [w]) = Inr acc'"
      and "getitem sim entity = Inr w"
      by (auto split: sum.splits)
    then show ?thesis
      using "2.IH"(2) [OF False] "2.prems"(2) by (simp add: balanced_def)
  qed
qed

lemma city_pems_flows_loop_balanced:
  "city_pems_flows_loop cid real_table simulated_table time_list acc = Inr acc'
     \<Longrightarrow> balanced acc \<Longrightarrow> balanced acc'"
proof (induction time_list arbitrary: acc)
  case Nil
  then show ?case by simp
next
  case (Cons t time_list)
  from Cons.prems(1) obtain real_row simulated_row acc1 where
    step: "append_city_pems_flows cid simulated_row (dict_items real_row) acc = Inr acc1"
    and rest: "city_pems_flows_loop cid real_table simulated_table time_list acc1 = Inr acc'"
    by (auto split: sum.splits)
  from step Cons.prems(2) have "balanced acc1"
    by (rule append_city_pems_flows_balanced)
  with rest show ?case by (rule Cons.IH)
qed

lemma append_city_pems_flows_returns:
  assumes "set (map fst its) \<subseteq> set (dict_keys sim)"
  shows "\<exists>acc'. append_city_pems_flows cid sim its acc = Inr acc'"
  using assms
proof (induction cid sim its acc rule: append_city_pems_flows.induct)
  case (1 cid sim acc)
  show ?case by (intro exI [of _ acc]) simp
next
  case (2 cid sim entity v rest cr cs pr ps)
  from "2.prems" obtain w where w: "map_of sim entity = Some w"
    by (cases "map_of sim entity") (auto simp: map_of_eq_None_iff dict_keys_def)
  from "2.prems" have sub: "set (map fst rest) \<subseteq> set (dict_keys sim)" by simp
  show ?case
  proof (cases "sublist cid entity")
    case True
    then show ?thesis
      using "2.IH"(1) [OF True _ sub, of w] w by (simp add: getitem_def)
  next
    case False
    then show ?thesis
      using "2.IH"(2) [OF False _ sub, of w] w by (simp add: getitem_def)
  qed
qed

lemma city_pems_flows_loop_returns:
  assumes "tables_aligned real_table simulated_table time_list"
  shows "\<exists>acc'. city_pems_flows_loop cid real_table simulated_table time_list acc = Inr acc'"
  using assms
proof (induction time_list arbitrary: acc)
  case Nil
  show ?case by (intro exI [of _ acc]) simp
next
  case (Cons t time_list)
  from Cons.prems obtain real_row simulated_row where
    r: "map_of real_table t = Some real_row" and s: "map_of simulated_table t = Some simulated_row"
    and sub: "set (dict_keys real_row) \<subseteq> set (dict_keys simulated_row)"
    by (auto simp: tables_aligned_def split: option.splits)
  from Cons.prems have al: "tables_aligned real_table simulated_table time_list"
    by (simp add: tables_aligned_def)
  from sub obtain acc1 where
    "append_city_pems_flows cid simulated_row (dict_items real_row) acc = Inr acc1"
    using append_city_pems_flows_returns [of real_row simulated_row cid acc]
    by (auto simp: dict_items_def dict_keys_def)
  then show ?case
    using r s Cons.IH [OF al, of acc1] by (simp add: getitem_def)
qed

lemma append_flows_error:
  "append_flows sim its acc = Inl e \<Longrightarrow> e = KeyError"
  by (induction sim its acc rule: append_flows.induct)
     (auto simp: getitem_Inl_iff split: sum.splits)

lemma all_flows_loop_error:
  "all_flows_loop real_table simulated_table time_list acc = Inl e \<Longrightarrow> e = KeyError"
  by (induction time_list arbitrary: acc)
     (auto simp: getitem_Inl_iff dest: append_flows_error split: sum.splits)

lemma append_city_pems_flows_error:
  "append_city_pems_flows cid sim its acc = Inl e \<Longrightarrow> e = KeyError"
  by (induction cid sim its acc rule: append_city_pems_flows.induct)
     (auto simp: getitem_def split: sum.splits if_splits option.splits)

lemma city_pems_flows_loop_error:
  "city_pems_flows_loop cid real_table simulated_table time_list acc = Inl e \<Longrightarrow> e = KeyError"
  by (induction time_list arbitrary: acc)
     (auto simp: getitem_Inl_iff dest: append_city_pems_flows_error split: sum.splits)

lemma convert_all_no_assertion:
  "convert_flow_per_time_to_list real_table simulated_table time_list None \<noteq> Inl AssertionError"
proof (cases "all_flows_loop real_table simulated_table time_list ([], [])")
  case (Inl e)
  then show ?thesis
    using all_flows_loop_error [OF Inl] by (simp add: convert_flow_per_time_to_list_def)
next
  case (Inr acc)
  obtain rl sl where acc: "acc = (rl, sl)" by (cases acc)
  have "length rl = length sl"
    using all_flows_loop_balanced [of real_table simulated_table time_list "[]" "[]" rl sl] Inr acc
    by simp
  then show ?thesis
    using Inr acc by (simp add: convert_flow_per_time_to_list_def)
qed

lemma convert_city_pems_no_assertion:
  "convert_flow_per_time_to_list real_table simulated_table time_list (Some cid)
     \<noteq> Inl AssertionError"
proof (cases "city_pems_flows_loop cid real_table simulated_table time_list ([], [], [], [])")
  case (Inl e)
  then show ?thesis
    using city_pems_flows_loop_error [OF Inl] by (simp add: convert_flow_per_time_to_list_def)
next
  case (Inr acc)
  obtain cr cs pr ps where acc: "acc = (cr, cs, pr, ps)" by (cases acc)
  have "balanced acc"
    using city_pems_flows_loop_balanced [OF Inr] by (simp add: balanced_def)
  then show ?thesis
    using Inr acc by (simp add: convert_flow_per_time_to_list_def balanced_def)
qed

lemma convert_city_pems_returns:
  assumes "tables_aligned real_table simulated_table time_list"
  shows "\<exists>city_real city_simulated pems_real pems_simulated.
           convert_flow_per_time_to_list real_table simulated_table time_list (Some cid) =
             Inr (CityPemsFlows city_real city_simulated pems_real pems_simulated)
           \<and> length city_real = length city_simulated
           \<and> length pems_real = length pems_simulated"
proof -
  from city_pems_flows_loop_returns [OF assms] obtain acc where
    loop: "city_pems_flows_loop cid real_table simulated_table time_list ([], [], [], []) = Inr acc"
    by blast
  obtain cr cs pr ps where acc: "acc = (cr, cs, pr, ps)" by (cases acc)
  have "balanced acc"
    using city_pems_flows_loop_balanced [OF loop] by (simp add: balanced_def)
  then show ?thesis
    using loop acc by (simp add: convert_flow_per_time_to_list_def balanced_def)
qed

lemma convert_all_returns:
  assumes "tables_aligned real_table simulated_table time_list"
  shows "\<exists>real_list simulated_list.
           convert_flow_per_time_to_list real_table simulated_table time_list None =
             Inr (AllFlows real_list simulated_list)
           \<and> length real_list = length simulated_list"
proof -
  have loop: "all_flows_loop real_table simulated_table time_list ([], []) =
          Inr (real_sequence real_table time_list,
               simulated_sequence real_table simulated_table time_list)"
    using all_flows_loop_closed [OF assms, of "[]" "[]"] by simp
  then have "length (real_sequence real_table time_list) =
             length (simulated_sequence real_table simulated_table time_list)"
    using all_flows_loop_balanced [OF loop] by simp
  then show ?thesis
    using loop by (simp add: convert_flow_per_time_to_list_def)
qed

section \<open>Theorems\<close>

text \<open>
  C7. Applied to an empty Time-Keyed Table (a dictionary with no time key), the
  transposition fails: \<open>list(dict_to_return.values())[0]\<close> reads element 0 of an empty
  list, which raises \<open>IndexError\<close>. This is the failure the specification names
  \<open>EmptyInputError\<close>; no result is produced.
\<close>

theorem revert_dict_of_dict_empty:
  "revert_dict_of_dict ([] :: ('x, ('y, 'v) dict) dict) = Inl IndexError"
  by (simp add: revert_dict_of_dict_def dict_values_def)

text \<open>
  C1 (as amended). For every well-formed Time-Keyed Table (at least one time key, distinct
  keys, the same entity set under every time key) the transposition returns a table
  \<open>result\<close> with \<open>result[e][t] = table[t][e]\<close> for every sample of the table; the
  samples of the result are exactly the samples of the table with the two keys swapped,
  as many as before, and no key occurs twice in the result or in one of its rows, so
  nothing is dropped and nothing is duplicated. If the table holds at least one sample,
  transposing the result succeeds and gives a table equal to the original one (equality
  of dictionaries, which does not look at the order of the keys).
\<close>

theorem revert_dict_of_dict_well_formed:
  assumes "well_formed table"
  shows "\<exists>result. revert_dict_of_dict table = Inr result
     \<and> (\<forall>(x, row) \<in> set table. \<forall>(y, v) \<in> set row.
            cell table x y = Inr v \<and> cell result y x = Inr v)
     \<and> set (entries result) = (\<lambda>(x, y, v). (y, x, v)) ` set (entries table)
     \<and> length (entries result) = length (entries table)
     \<and> is_dict result \<and> (\<forall>col \<in> set (dict_values result). is_dict col)
     \<and> (entries table \<noteq> [] \<longrightarrow>
            (\<exists>back. revert_dict_of_dict result = Inr back \<and> table_eq back table))"
proof -
  from assms obtain x0 first rest where table: "table = (x0, first) # rest"
    and dict: "is_dict table" and first: "is_dict first"
    and rows: "\<forall>row \<in> set (dict_values table).
                 is_dict row \<and> set (dict_keys row) = set (dict_keys first)"
    by (rule well_formed_Cons)
  define ys where "ys = dict_keys first"
  define result where "result = transposed table ys"
  have ys: "distinct ys"
    using first by (simp add: ys_def is_dict_def dict_keys_def)
  have rows': "\<forall>row \<in> set (dict_values table). is_dict row \<and> set (dict_keys row) = set ys"
    using rows by (simp add: ys_def)
  have row_of: "is_dict row \<and> set (dict_keys row) = set ys" if "(x, row) \<in> set table" for x row
    using rows' that by (force simp: dict_values_def)
  have 1: "revert_dict_of_dict table = Inr result"
    unfolding result_def ys_def using table dict first rows
    by (intro revert_dict_of_dict_closed) auto
  have 2: "cell table x y = Inr v \<and> cell result y x = Inr v"
    if "(x, row) \<in> set table" "(y, v) \<in> set row" for x row y v
  proof -
    have "is_dict row" "y \<in> set ys"
      using row_of [OF that(1)] that(2) by (auto simp: dict_keys_def rev_image_eqI)
    then show ?thesis
      using dict that by (simp add: result_def cell_transposed cell_table)
  qed
  have 3: "set (entries result) = (\<lambda>(x, y, v). (y, x, v)) ` set (entries table)"
  proof -
    have "(y, x, v) \<in> set (entries result) \<longleftrightarrow> (x, y, v) \<in> set (entries table)" for x y v
    proof -
      have "(y, x, v) \<in> set (entries result) \<longleftrightarrow>
            y \<in> set ys \<and> (\<exists>row. (x, row) \<in> set table \<and> v = the (map_of row y))"
        by (simp add: result_def set_entries_transposed)
      also have "\<dots> \<longleftrightarrow> (\<exists>row. (x, row) \<in> set table \<and> (y, v) \<in> set row)"
        using row_of dict_entry_iff by metis
      finally show ?thesis by (simp add: set_entries)
    qed
    then show ?thesis by (force simp: image_iff)
  qed
  have 4: "length (entries result) = length (entries table)"
  proof -
    have "\<forall>row \<in> set (dict_values table). length row = length ys"
      using rows' ys by (auto intro: same_keys_same_length)
    then have "length (entries table) = length ys * length table"
      by (rule length_entries_uniform)
    then show ?thesis
      by (simp add: result_def length_entries_transposed)
  qed
  have 5: "is_dict result"
    using ys keys_transposed [of table ys] by (simp add: result_def is_dict_def dict_keys_def)
  have 6: "\<forall>col \<in> set (dict_values result). is_dict col"
    using values_transposed_keys [of _ table ys] dict
    by (auto simp: result_def is_dict_def dict_keys_def)
  have 7: "\<exists>back. revert_dict_of_dict result = Inr back \<and> table_eq back table"
    if "entries table \<noteq> []"
  proof -
    from that obtain row where "row \<in> set (dict_values table)" "row \<noteq> []"
      by (force simp: entries_def dict_values_def)
    with rows' have "ys \<noteq> []" by (auto simp: dict_keys_def)
    then obtain y ys' where y: "ys = y # ys'" by (cases ys) auto
    define col where "col = map (\<lambda>(x, row). (x, the (map_of row y))) table"
    have res: "result = (y, col) # transposed table ys'"
      by (simp add: result_def y transposed_def col_def)
    have keys_col: "dict_keys col = dict_keys table"
      unfolding col_def dict_keys_def by (rule keys_column)
    have "revert_dict_of_dict result = Inr (transposed result (dict_keys col))"
      using res 5 6 values_transposed_keys [of _ table ys] keys_col
      by (intro revert_dict_of_dict_closed [of _ y _ "transposed table ys'"])
         (auto simp: result_def dict_values_def)
    moreover have "table_eq (transposed result (dict_keys table)) table"
      unfolding result_def using dict ys rows' by (rule table_eq_transposed_twice)
    ultimately show ?thesis by (simp add: keys_col)
  qed
  from 1 2 3 4 5 6 7 show ?thesis by blast
qed

text \<open>
  The theorem at the table of the specification's example, with the entities of the
  second row stored in the other order.
\<close>

theorem revert_dict_of_dict_well_formed_witness:
  "well_formed [(Time 9 0, [(''d1'', 10 :: real), (''d2'', 20)]),
                (Time 9 15, [(''d2'', 18), (''d1'', 12)])]
   \<and> (\<exists>result back.
         revert_dict_of_dict [(Time 9 0, [(''d1'', 10 :: real), (''d2'', 20)]),
                              (Time 9 15, [(''d2'', 18), (''d1'', 12)])] = Inr result
       \<and> revert_dict_of_dict result = Inr back
       \<and> table_eq back [(Time 9 0, [(''d1'', 10 :: real), (''d2'', 20)]),
                         (Time 9 15, [(''d2'', 18), (''d1'', 12)])])"
proof -
  let ?table = "[(Time 9 0, [(''d1'', 10 :: real), (''d2'', 20)]),
                 (Time 9 15, [(''d2'', 18), (''d1'', 12)])]"
  have wf: "well_formed ?table"
    by (auto simp: well_formed_def is_dict_def dict_values_def dict_keys_def)
  have ne: "entries ?table \<noteq> []"
    by (simp add: entries_def)
  from revert_dict_of_dict_well_formed [OF wf] ne wf show ?thesis
    by blast
qed

text \<open>
  The round trip as the claim states it fails on a well-formed table without entities:
  the transpose of \<open>{09:00: {}}\<close> is the empty table, and transposing the empty table
  raises \<open>IndexError\<close>.
\<close>

theorem revert_twice_no_entity_counterexample:
  "well_formed [(Time 9 0, ([] :: (string, real) dict))]
   \<and> revert_dict_of_dict [(Time 9 0, ([] :: (string, real) dict))] = Inr []
   \<and> revert_dict_of_dict ([] :: (string, (time, real) dict) dict) = Inl IndexError"
  by (simp add: well_formed_def is_dict_def revert_dict_of_dict_def dict_values_def dict_keys_def)

text \<open>
  C4 (as amended). For a non-empty Time-Keyed Table whose first row is \<open>first\<close>: if some
  later time key lacks an entity that is present under the first time key, the
  transposition raises \<open>KeyError\<close> and returns no table. If every later row has all the
  entities of the first row, the transposition succeeds, and the entities of the result
  are exactly those of the first time key, in its order (an entity that occurs only
  under a later time key is left out without an error); every entity of the result holds
  a value for every time key.
\<close>

theorem revert_dict_of_dict_first_key:
  assumes "table = (x0, first) # rest" "is_dict table" "is_dict first"
  shows "((\<exists>row \<in> set (dict_values rest). \<not> set (dict_keys first) \<subseteq> set (dict_keys row)) \<longrightarrow>
            revert_dict_of_dict table = Inl KeyError)
     \<and> ((\<forall>row \<in> set (dict_values rest). set (dict_keys first) \<subseteq> set (dict_keys row)) \<longrightarrow>
            (\<exists>result. revert_dict_of_dict table = Inr result
               \<and> dict_keys result = dict_keys first
               \<and> (\<forall>col \<in> set (dict_values result). dict_keys col = dict_keys table)))"
proof (intro conjI impI)
  assume "\<exists>row \<in> set (dict_values rest). \<not> set (dict_keys first) \<subseteq> set (dict_keys row)"
  then obtain row y where "row \<in> set (dict_values rest)" and y: "y \<in> set (dict_keys first)"
    and miss: "y \<notin> set (dict_keys row)"
    by blast
  then obtain x where xr: "(x, row) \<in> set rest"
    by (auto simp: dict_values_def)
  have "(x, row) \<in> set table"
    using xr assms(1) by simp
  then have "map_of table x = Some row"
    using assms(2) by (simp add: is_dict_def)
  moreover have "map_of row y = None"
    using miss by (simp add: map_of_eq_None_iff dict_keys_def)
  moreover have "x \<in> set (dict_keys table)"
    using xr assms(1) by (auto simp: dict_keys_def rev_image_eqI)
  ultimately have "inner_comprehension table y (dict_keys table) [] = Inl KeyError"
    by (intro inner_comprehension_missing)
  with y have "outer_comprehension table (dict_keys first) [] = Inl KeyError"
    by (intro outer_comprehension_missing)
  then show "revert_dict_of_dict table = Inl KeyError"
    by (simp add: revert_dict_of_dict_def dict_values_def assms(1))
next
  assume "\<forall>row \<in> set (dict_values rest). set (dict_keys first) \<subseteq> set (dict_keys row)"
  then have "\<forall>row \<in> set (dict_values table). set (dict_keys first) \<subseteq> set (dict_keys row)"
    by (simp add: assms(1) dict_values_def)
  with assms have "revert_dict_of_dict table = Inr (transposed table (dict_keys first))"
    by (rule revert_dict_of_dict_closed)
  then show "\<exists>result. revert_dict_of_dict table = Inr result
               \<and> dict_keys result = dict_keys first
               \<and> (\<forall>col \<in> set (dict_values result). dict_keys col = dict_keys table)"
    by (simp add: keys_transposed values_transposed_keys)
qed

text \<open>
  The theorem at a table whose second row lacks \<open>d2\<close>, and at a table whose second row
  has the additional entity \<open>d3\<close>.
\<close>

theorem revert_dict_of_dict_first_key_witness:
  "revert_dict_of_dict [(Time 8 0, [(''d1'', 1 :: real), (''d2'', 2)]),
                        (Time 8 15, [(''d1'', 3)])] = Inl KeyError
   \<and> (\<exists>result.
         revert_dict_of_dict [(Time 8 0, [(''d1'', 1 :: real), (''d2'', 2)]),
                              (Time 8 15, [(''d3'', 5), (''d1'', 3), (''d2'', 4)])] = Inr result
       \<and> dict_keys result = [''d1'', ''d2''])"
proof -
  have "revert_dict_of_dict [(Time 8 0, [(''d1'', 1 :: real), (''d2'', 2)]),
                             (Time 8 15, [(''d1'', 3)])] = Inl KeyError"
    using revert_dict_of_dict_first_key
      [of "[(Time 8 0, [(''d1'', 1 :: real), (''d2'', 2)]), (Time 8 15, [(''d1'', 3)])]"
          "Time 8 0" "[(''d1'', 1), (''d2'', 2)]" "[(Time 8 15, [(''d1'', 3)])]"]
    by (simp add: is_dict_def dict_values_def dict_keys_def)
  moreover have "\<exists>result.
      revert_dict_of_dict [(Time 8 0, [(''d1'', 1 :: real), (''d2'', 2)]),
                           (Time 8 15, [(''d3'', 5), (''d1'', 3), (''d2'', 4)])] = Inr result
    \<and> dict_keys result = [''d1'', ''d2'']"
    using revert_dict_of_dict_first_key
      [of "[(Time 8 0, [(''d1'', 1 :: real), (''d2'', 2)]),
            (Time 8 15, [(''d3'', 5), (''d1'', 3), (''d2'', 4)])]"
          "Time 8 0" "[(''d1'', 1), (''d2'', 2)]"
          "[(Time 8 15, [(''d3'', 5), (''d1'', 3), (''d2'', 4)])]"]
    by (auto simp: is_dict_def dict_values_def dict_keys_def)
  ultimately show ?thesis by blast
qed

text \<open>
  The claim as stated fails: with \<open>d2\<close> missing under 09:15 the transposition does not
  return a table with that sample left out, it raises \<open>KeyError\<close>.
\<close>

theorem revert_missing_entity_counterexample:
  "revert_dict_of_dict [(Time 9 0, [(''d1'', 10 :: real), (''d2'', 20)]),
                        (Time 9 15, [(''d1'', 12)])] = Inl KeyError"
  by (simp add: revert_dict_of_dict_def dict_values_def dict_keys_def getitem_def setitem_def)

text \<open>
  C2. If every listed time is present in both tables and every entity under
  \<open>real_table[time]\<close> is present under \<open>simulated_table[time]\<close>, then
  \<open>convert_flow_per_time_to_list\<close> without \<open>city_common_id\<close> returns the pair of
  sequences obtained by going through the times in the order of \<open>time_list\<close> and,
  within a time, through the entities of \<open>real_table[time]\<close> in their order: the first
  sequence holds \<open>real_table[time][entity]\<close>, the second
  \<open>simulated_table[time][entity]\<close>.
\<close>

theorem convert_flow_per_time_to_list_all:
  assumes "tables_aligned real_table simulated_table time_list"
  shows "convert_flow_per_time_to_list real_table simulated_table time_list None =
           Inr (AllFlows (real_sequence real_table time_list)
                         (simulated_sequence real_table simulated_table time_list))"
proof -
  have "length (real_sequence real_table time_list) =
        length (simulated_sequence real_table simulated_table time_list)"
    by (simp add: real_sequence_def simulated_sequence_def length_concat comp_def dict_keys_def)
  then show ?thesis
    using all_flows_loop_closed [OF assms, of "[]" "[]"]
    by (simp add: convert_flow_per_time_to_list_def)
qed

text \<open>
  The example of the specification: real table \<open>{09:00: {"d1": 10.0}}\<close>, simulated table
  \<open>{09:00: {"d1": 8.0}}\<close> and time list \<open>[09:00]\<close> give \<open>([10.0], [8.0])\<close>.
\<close>

theorem convert_flow_per_time_to_list_all_witness:
  "tables_aligned [(Time 9 0, [(''d1'', 10)])] [(Time 9 0, [(''d1'', 8)])] [Time 9 0]
   \<and> convert_flow_per_time_to_list [(Time 9 0, [(''d1'', 10)])] [(Time 9 0, [(''d1'', 8)])]
         [Time 9 0] None = Inr (AllFlows [10] [8])"
proof -
  have h: "tables_aligned [(Time 9 0, [(''d1'', 10)])] [(Time 9 0, [(''d1'', 8)])] [Time 9 0]"
    by (simp add: tables_aligned_def dict_keys_def)
  show ?thesis
    using h convert_flow_per_time_to_list_all [OF h]
    by (simp add: real_sequence_def simulated_sequence_def dict_keys_def)
qed

text \<open>
  C3. The assertions on the lengths never fail: on no input does
  \<open>convert_flow_per_time_to_list\<close> end in \<open>AssertionError\<close>. On every input on which
  it returns (every listed time present in both tables, every entity of the real table
  present in the simulated table) the real and the simulated list have the same length;
  with \<open>city_common_id\<close> this holds for the city pair and for the PeMS pair
  independently.
\<close>

theorem convert_flow_per_time_to_list_balanced:
  "convert_flow_per_time_to_list real_table simulated_table time_list city_common_id
      \<noteq> Inl AssertionError
   \<and> (tables_aligned real_table simulated_table time_list \<longrightarrow>
        (case city_common_id of
           None \<Rightarrow>
             \<exists>real_list simulated_list.
               convert_flow_per_time_to_list real_table simulated_table time_list None =
                 Inr (AllFlows real_list simulated_list)
               \<and> length real_list = length simulated_list
         | Some common_id \<Rightarrow>
             \<exists>city_real city_simulated pems_real pems_simulated.
               convert_flow_per_time_to_list real_table simulated_table time_list
                   (Some common_id) =
                 Inr (CityPemsFlows city_real city_simulated pems_real pems_simulated)
               \<and> length city_real = length city_simulated
               \<and> length pems_real = length pems_simulated))"
proof (cases city_common_id)
  case None
  then show ?thesis
    using convert_all_no_assertion convert_all_returns by simp
next
  case (Some cid)
  then show ?thesis
    using convert_city_pems_no_assertion convert_city_pems_returns by simp
qed

text \<open>
  The theorem with \<open>city_common_id = "2013"\<close> on a table with one city detector and one
  PeMS detector, read at two times.
\<close>

theorem convert_flow_per_time_to_list_balanced_witness:
  "tables_aligned [(Time 9 0, [(''2013_d1'', 10), (''p7'', 3)])]
                  [(Time 9 0, [(''p7'', 4), (''2013_d1'', 8)])] [Time 9 0, Time 9 0]
   \<and> (\<exists>city_real city_simulated pems_real pems_simulated.
         convert_flow_per_time_to_list [(Time 9 0, [(''2013_d1'', 10), (''p7'', 3)])]
             [(Time 9 0, [(''p7'', 4), (''2013_d1'', 8)])] [Time 9 0, Time 9 0] (Some ''2013'') =
           Inr (CityPemsFlows city_real city_simulated pems_real pems_simulated)
         \<and> length city_real = length city_simulated
         \<and> length pems_real = length pems_simulated)"
proof -
  have h: "tables_aligned [(Time 9 0, [(''2013_d1'', 10), (''p7'', 3)])]
             [(Time 9 0, [(''p7'', 4), (''2013_d1'', 8)])] [Time 9 0, Time 9 0]"
    by (simp add: tables_aligned_def dict_keys_def)
  show ?thesis
    using h convert_flow_per_time_to_list_balanced
      [of "[(Time 9 0, [(''2013_d1'', 10), (''p7'', 3)])]"
          "[(Time 9 0, [(''p7'', 4), (''2013_d1'', 8)])]" "[Time 9 0, Time 9 0]" "Some ''2013''"]
    by simp
qed

text \<open>
  C5. Whenever \<open>get_linear_regression\<close> returns, the intercept it reports is the absolute
  value of the intercept of the fitted object, so it is never negative and the sign of
  the fitted intercept is lost. With \<open>enforce_intercept\<close> the fit is requested without
  intercept, and with a regression utility that then fits the intercept 0 the reported
  intercept is exactly 0.
\<close>

theorem get_linear_regression_intercept:
  assumes "get_linear_regression lib real_data_list simulated_data_list enforce_intercept =
             Inr result"
  shows "0 \<le> intercept result
     \<and> (\<exists>obj. fit lib (\<not> enforce_intercept) real_data_list simulated_data_list = Inr obj
              \<and> intercept result = \<bar>intercept_fitted obj\<bar>)
     \<and> (enforce_intercept \<and> forces_zero_intercept lib \<longrightarrow> intercept result = 0)"
proof -
  from assms obtain obj where
    obj: "fit lib (\<not> enforce_intercept) real_data_list simulated_data_list = Inr obj"
    by (auto simp: get_linear_regression_def split: sum.splits)
  with assms have abs: "intercept result = \<bar>intercept_fitted obj\<bar>"
    by (auto simp: get_linear_regression_def Let_def split: sum.splits)
  have "intercept result = 0" if "enforce_intercept" "forces_zero_intercept lib"
    using that obj abs by (simp add: forces_zero_intercept_def)
  with obj abs show ?thesis by auto
qed

text \<open>
  The theorem on the example of the specification (\<open>x = [1, 2, 3]\<close>, \<open>y = [2, 4, 6]\<close>,
  intercept enforced: slope 2, intercept 0, coefficient of determination 1) and on
  \<open>y = [0, 2, 4]\<close> with a free intercept, where the fitted intercept is \<open>-2\<close> and the
  reported one is 2.
\<close>

theorem get_linear_regression_intercept_witness:
  "get_linear_regression ols_utility [1, 2, 3] [2, 4, 6] True =
     Inr \<lparr>slope = 2, intercept = 0, r_sq = Some 1, max_val = 3, yhat = [2, 4, 6]\<rparr>
   \<and> forces_zero_intercept ols_utility
   \<and> get_linear_regression ols_utility [1, 2, 3] [0, 2, 4] False =
     Inr \<lparr>slope = 2, intercept = 2, r_sq = Some 1, max_val = 3, yhat = [4, 6, 8]\<rparr>
   \<and> ols_fit True [1, 2, 3] [0, 2, 4] = Inr \<lparr>coef_fitted = 2, intercept_fitted = - 2\<rparr>"
proof -
  have run: "get_linear_regression ols_utility [1, 2, 3] [2, 4, 6] True =
     Inr \<lparr>slope = 2, intercept = 0, r_sq = Some 1, max_val = 3, yhat = [2, 4, 6]\<rparr>"
    by (simp add: get_linear_regression_def ols_utility_def ols_fit_def ols_score_def
        least_squares_coef_def array_max_def mean_def power2_eq_square)
  have run': "get_linear_regression ols_utility [1, 2, 3] [0, 2, 4] False =
     Inr \<lparr>slope = 2, intercept = 2, r_sq = Some 1, max_val = 3, yhat = [4, 6, 8]\<rparr>"
    by (simp add: get_linear_regression_def ols_utility_def ols_fit_def ols_score_def
        least_squares_coef_def array_max_def mean_def power2_eq_square)
  have fitted: "ols_fit True [1, 2, 3] [0, 2, 4] = Inr \<lparr>coef_fitted = 2, intercept_fitted = - 2\<rparr>"
    by (simp add: ols_fit_def least_squares_coef_def mean_def)
  have zero: "forces_zero_intercept ols_utility"
    by (auto simp: forces_zero_intercept_def ols_utility_def ols_fit_def split: if_splits)
  from get_linear_regression_intercept [OF run] get_linear_regression_intercept [OF run']
    run run' fitted zero
  show ?thesis by simp
qed




text \<open>
  C8. Exporting a profile whose \<open>ext_demand_matrix\<close> is empty raises the exception
  "ExternalDemandProfile has no data. Export aborted." (the specification's
  \<open>EmptyCollectionError\<close>) and leaves the files and the warnings as they were. Exporting
  a non-empty profile to a path that already holds a file succeeds: one warning is
  issued and the file then holds the exported list.
\<close>

theorem export_to_file_empty_or_existing:
  "(ext_demand_matrix self = [] \<longrightarrow>
      export_to_file self filepath env =
        (Inl (Exception ''ExternalDemandProfile has no data. Export aborted.''), env))
   \<and> (ext_demand_matrix self \<noteq> [] \<and> files env filepath \<noteq> None \<longrightarrow>
      export_to_file self filepath env =
        (Inr (),
         env\<lparr>warnings := warnings env @ [''File already exists at filepath. Overwriting file.''],
             files := (files env)(filepath \<mapsto> PyList (ext_demand_matrix self))\<rparr>))"
  by (simp add: export_to_file_def path_exists_def warn_def pickle_dump_def)

text \<open>
  The theorem on an existing file \<open>profile.pkl\<close>, first with an empty profile, then with
  a profile of one record.
\<close>

theorem export_to_file_empty_or_existing_witness:
  "export_to_file \<lparr>ext_demand_matrix = []\<rparr> ''profile.pkl''
       \<lparr>files = [''profile.pkl'' \<mapsto> PyInt 1], warnings = []\<rparr> =
     (Inl (Exception ''ExternalDemandProfile has no data. Export aborted.''),
      \<lparr>files = [''profile.pkl'' \<mapsto> PyInt 1], warnings = []\<rparr>)
   \<and> export_to_file \<lparr>ext_demand_matrix = [PyExternalDemandData sample_demand_data]\<rparr>
       ''profile.pkl'' \<lparr>files = [''profile.pkl'' \<mapsto> PyInt 1], warnings = []\<rparr> =
     (Inr (),
      \<lparr>files = [''profile.pkl'' \<mapsto> PyList [PyExternalDemandData sample_demand_data]],
       warnings = [''File already exists at filepath. Overwriting file.'']\<rparr>)"
  using export_to_file_empty_or_existing
      [of "\<lparr>ext_demand_matrix = []\<rparr>" "''profile.pkl''"
          "\<lparr>files = [''profile.pkl'' \<mapsto> PyInt 1], warnings = []\<rparr>"]
    export_to_file_empty_or_existing
      [of "\<lparr>ext_demand_matrix = [PyExternalDemandData sample_demand_data]\<rparr>" "''profile.pkl''"
          "\<lparr>files = [''profile.pkl'' \<mapsto> PyInt 1], warnings = []\<rparr>"]
  by simp

text \<open>
  C9. When the file holds the payload, the import raises the exception "File has
  incorrect data type. Import aborted." (the specification's \<open>TypeMismatchError\<close>)
  exactly when the payload is not a list, or is a list whose first element is not an
  \<open>ExternalDemandData\<close>. Only the first element is looked at: a list whose first element
  is an \<open>ExternalDemandData\<close> is accepted whatever the rest holds. On success
  \<open>ext_demand_matrix\<close> is the deserialized list.
\<close>

theorem import_from_file_type_check:
  assumes "files env filepath = Some payload"
  shows "(import_from_file self filepath env =
            Inl (Exception ''File has incorrect data type. Import aborted.'') \<longleftrightarrow>
          \<not> isinstance_list payload
          \<or> (\<exists>first rest. payload = PyList (first # rest)
                \<and> \<not> isinstance_ExternalDemandData first))
     \<and> (\<forall>first rest. payload = PyList (first # rest) \<and> isinstance_ExternalDemandData first \<longrightarrow>
           import_from_file self filepath env = Inr (self\<lparr>ext_demand_matrix := first # rest\<rparr>))
     \<and> (\<forall>self'. import_from_file self filepath env = Inr self' \<longrightarrow>
           PyList (ext_demand_matrix self') = payload)"
proof (cases payload)
  case (PyList xs)
  then show ?thesis
    using assms by (cases xs) (auto simp: import_from_file_def index0_def)
qed (use assms in \<open>auto simp: import_from_file_def\<close>)

text \<open>
  The theorem on a file holding a list of one record followed by an integer, which is
  accepted as it is, and on a file holding a list that starts with an integer, which is
  refused.
\<close>

theorem import_from_file_type_check_witness:
  "import_from_file \<lparr>ext_demand_matrix = []\<rparr> ''profile.pkl''
       \<lparr>files = [''profile.pkl'' \<mapsto> PyList [PyExternalDemandData sample_demand_data, PyInt 3]],
        warnings = []\<rparr> =
     Inr \<lparr>ext_demand_matrix = [PyExternalDemandData sample_demand_data, PyInt 3]\<rparr>
   \<and> import_from_file \<lparr>ext_demand_matrix = []\<rparr> ''profile.pkl''
       \<lparr>files = [''profile.pkl'' \<mapsto> PyList [PyInt 3, PyExternalDemandData sample_demand_data]],
        warnings = []\<rparr> =
     Inl (Exception ''File has incorrect data type. Import aborted.'')"
  using import_from_file_type_check
      [of "\<lparr>files = [''profile.pkl'' \<mapsto>
                      PyList [PyExternalDemandData sample_demand_data, PyInt 3]],
            warnings = []\<rparr>"
          "''profile.pkl''" "PyList [PyExternalDemandData sample_demand_data, PyInt 3]"
          "\<lparr>ext_demand_matrix = []\<rparr>"]
    import_from_file_type_check
      [of "\<lparr>files = [''profile.pkl'' \<mapsto>
                      PyList [PyInt 3, PyExternalDemandData sample_demand_data]],
            warnings = []\<rparr>"
          "''profile.pkl''" "PyList [PyInt 3, PyExternalDemandData sample_demand_data]"
          "\<lparr>ext_demand_matrix = []\<rparr>"]
  by simp

text \<open>
  C10. When the file holds the empty list, the import raises \<open>IndexError\<close>, from
  \<open>imported_data[0]\<close>, and not the exception of the type check. The case is reachable
  through the constructor with a non-empty \<open>filepath\<close>.
\<close>

theorem import_from_file_empty_list:
  assumes "files env filepath = Some (PyList [])"
  shows "import_from_file self filepath env = Inl IndexError
     \<and> (filepath \<noteq> '''' \<longrightarrow> init filepath env = Inl IndexError)"
  using assms by (simp add: import_from_file_def init_def index0_def)

text \<open>
  The theorem on a file \<open>empty.pkl\<close> that holds the empty list.
\<close>

theorem import_from_file_empty_list_witness:
  "import_from_file \<lparr>ext_demand_matrix = []\<rparr> ''empty.pkl''
       \<lparr>files = [''empty.pkl'' \<mapsto> PyList []], warnings = []\<rparr> = Inl IndexError
   \<and> init ''empty.pkl'' \<lparr>files = [''empty.pkl'' \<mapsto> PyList []], warnings = []\<rparr> =
       Inl IndexError"
  using import_from_file_empty_list
      [of "\<lparr>files = [''empty.pkl'' \<mapsto> PyList []], warnings = []\<rparr>" "''empty.pkl''"
          "\<lparr>ext_demand_matrix = []\<rparr>"]
  by simp

end
